theory Spec2Isabelle
  imports Main "HOL-Library.Word"
begin

section \<open>The post service of main.go\<close>

text \<open>
  The program is a Go web service with two handlers, \<open>index\<close> and \<open>create\<close>, over one
  file \<open>posts.json\<close>. This theory embeds its functions as HOL functions over an explicit
  world (the file, the clock, standard output) and an explicit response writer. The Go
  standard library is not part of the repository: \<open>encoding/json\<close>, \<open>os\<close>, \<open>time\<close> and
  \<open>net/http\<close> are modelled by their documented behaviour, each in a section of its own,
  so that the handlers can be read against main.go line by line.
\<close>

subsection \<open>The struct Post\<close>

text \<open>
  Go's \<open>int\<close> is a 64-bit two's complement integer on the 64-bit platforms; \<open>+=\<close> wraps.
  Strings are byte sequences.
\<close>

record Post =
  Title :: string
  Content :: string
  CreatedAt :: string
  Author :: string
  ViewCount :: "64 word"
  LastViewed :: string

text \<open>The zero value of the struct, which \<open>var newPost Post\<close> declares.\<close>

definition zero_Post :: Post where
  "zero_Post = \<lparr>Title = [], Content = [], CreatedAt = [], Author = [],
                 ViewCount = 0, LastViewed = []\<rparr>"

text \<open>
  A slice \<open>[]Post\<close>: \<open>None\<close> is the nil slice, which \<open>var posts []Post\<close> declares;
  \<open>Some []\<close> is an empty slice that is not nil. The JSON encoder tells them apart.
\<close>

type_synonym slice = "Post list option"

definition len :: "slice \<Rightarrow> nat" where
  "len s = (case s of None \<Rightarrow> 0 | Some ps \<Rightarrow> length ps)"

definition elems :: "slice \<Rightarrow> Post list" where
  "elems s = (case s of None \<Rightarrow> [] | Some ps \<Rightarrow> ps)"

definition append_slice :: "slice \<Rightarrow> Post \<Rightarrow> slice" where
  "append_slice s p = Some (elems s @ [p])"

subsection \<open>The world outside the process\<close>

text \<open>
  \<open>disk\<close> is the content of posts.json (\<open>None\<close> when the file does not exist);
  \<open>can_read\<close> says whether \<open>os.ReadFile\<close> succeeds on it, \<open>can_write\<close> whether the
  file can be opened (or created) for writing, and \<open>room\<close> how many bytes a write can
  store before it fails (\<open>None\<close> when there is no limit). \<open>dates k\<close> is what the k-th
  call of \<open>time.Now().Format("2006-01-02")\<close> returns and \<open>calls\<close> counts the calls
  made so far, so two calls in one request may see two dates. \<open>stdout\<close> is what
  \<open>fmt.Printf\<close> has printed.
\<close>

record world =
  disk :: "string option"
  can_read :: bool
  can_write :: bool
  room :: "nat option"
  dates :: "nat \<Rightarrow> string"
  calls :: nat
  stdout :: string

definition today :: "world \<Rightarrow> string" where
  "today w = dates w (calls w)"

definition tick :: "world \<Rightarrow> world" where
  "tick w = w\<lparr>calls := Suc (calls w)\<rparr>"

text \<open>
  \<open>os.ReadFile\<close> returns the bytes, or no bytes and an error when the file is missing
  or cannot be opened.
\<close>

definition os_ReadFile :: "world \<Rightarrow> string \<times> bool" where
  "os_ReadFile w =
     (case disk w of
        None \<Rightarrow> ([], True)
      | Some d \<Rightarrow> if can_read w then (d, False) else ([], True))"

text \<open>
  \<open>os.WriteFile\<close> opens the file with \<open>O_WRONLY|O_CREATE|O_TRUNC\<close>, writes the bytes
  and closes it. When the file cannot be opened, it is left as it was. Once it is
  open it is empty, and it holds as many of the bytes as the write could store: all of
  them, or a beginning of them, and then the call returns an error. \<open>written w d\<close>
  is what a write of \<open>d\<close> stores.
\<close>

definition written :: "world \<Rightarrow> string \<Rightarrow> string" where
  "written w d = (case room w of None \<Rightarrow> d | Some n \<Rightarrow> take n d)"

definition os_WriteFile :: "string \<Rightarrow> world \<Rightarrow> bool \<times> world" where
  "os_WriteFile d w =
     (if can_write w then (length (written w d) < length d, w\<lparr>disk := Some (written w d)\<rparr>)
      else (True, w))"

subsection \<open>The pointer receivers\<close>

definition increaseViewCount :: "Post \<Rightarrow> Post" where
  "increaseViewCount post = post\<lparr>ViewCount := ViewCount post + 1\<rparr>"

definition setLastViewed :: "Post \<Rightarrow> world \<Rightarrow> Post \<times> world" where
  "setLastViewed post w = (post\<lparr>LastViewed := today w\<rparr>, tick w)"

definition setCreatedAt :: "Post \<Rightarrow> world \<Rightarrow> Post \<times> world" where
  "setCreatedAt post w = (post\<lparr>CreatedAt := today w\<rparr>, tick w)"

subsection \<open>UTF-8, as the JSON encoder and decoder read it\<close>

definition byte :: "char \<Rightarrow> nat" where
  "byte c = of_char c"

definition between :: "nat \<Rightarrow> nat \<Rightarrow> char \<Rightarrow> bool" where
  "between lo hi c = (lo \<le> byte c \<and> byte c \<le> hi)"

text \<open>
  \<open>utf8_len s\<close> is the number of bytes of the well-formed UTF-8 sequence at the head of
  \<open>s\<close>, and 0 when there is none (\<open>utf8.DecodeRune\<close> then returns the replacement
  character with width 1). The second byte's range depends on the first, which rules
  out overlong forms, surrogates and code points beyond U+10FFFF.
\<close>

definition utf8_len :: "string \<Rightarrow> nat" where
  "utf8_len s =
     (case s of
        [] \<Rightarrow> 0
      | a # t \<Rightarrow>
          if byte a < 0x80 then 1
          else if byte a < 0xC2 then 0
          else if byte a < 0xE0 then
            (case t of b # _ \<Rightarrow> if between 0x80 0xBF b then 2 else 0 | _ \<Rightarrow> 0)
          else if byte a < 0xF0 then
            (case t of
               b # c # _ \<Rightarrow>
                 if between (if byte a = 0xE0 then 0xA0 else 0x80)
                      (if byte a = 0xED then 0x9F else 0xBF) b
                    \<and> between 0x80 0xBF c
                 then 3 else 0
             | _ \<Rightarrow> 0)
          else if byte a < 0xF5 then
            (case t of
               b # c # d # _ \<Rightarrow>
                 if between (if byte a = 0xF0 then 0x90 else 0x80)
                      (if byte a = 0xF4 then 0x8F else 0xBF) b
                    \<and> between 0x80 0xBF c \<and> between 0x80 0xBF d
                 then 4 else 0
             | _ \<Rightarrow> 0)
          else 0)"

text \<open>U+FFFD in UTF-8.\<close>

definition replacement :: string where
  "replacement = [CHR 0xEF, CHR 0xBF, CHR 0xBD]"

text \<open>
  \<open>utf8.EncodeRune\<close>: a surrogate or a value beyond U+10FFFF is encoded as U+FFFD.
\<close>

definition encodeRune :: "nat \<Rightarrow> string" where
  "encodeRune r =
     (if r < 0x80 then [char_of r]
      else if r < 0x800 then [char_of (0xC0 + r div 64), char_of (0x80 + r mod 64)]
      else if (0xD800 \<le> r \<and> r < 0xE000) \<or> 0x10FFFF < r then replacement
      else if r < 0x10000 then
        [char_of (0xE0 + r div 4096), char_of (0x80 + r div 64 mod 64),
         char_of (0x80 + r mod 64)]
      else
        [char_of (0xF0 + r div 262144), char_of (0x80 + r div 4096 mod 64),
         char_of (0x80 + r div 64 mod 64), char_of (0x80 + r mod 64)])"

subsection \<open>encoding/json: encoding\<close>

text \<open>\<open>strconv.FormatInt(n, 10)\<close>.\<close>

function digits10 :: "int \<Rightarrow> string" where
  "digits10 n =
     (if n < 10 then [''0123456789'' ! nat n]
      else digits10 (n div 10) @ [''0123456789'' ! nat (n mod 10)])"
  by pat_completeness auto
termination
  by (relation "measure nat") auto

text \<open>The magnitude of the least 64-bit integer is formed before the sign is dropped.\<close>

definition FormatInt :: "int \<Rightarrow> string" where
  "FormatInt i = (if i < 0 then CHR ''-'' # digits10 (- i) else digits10 i)"

definition hex_digit :: "nat \<Rightarrow> char" where
  "hex_digit n = ''0123456789abcdef'' ! n"

text \<open>
  The body of a JSON string as the encoder writes it, with HTML escaping on (the
  default of \<open>Marshal\<close> and of \<open>Encoder\<close>): the quote and the backslash get a backslash,
  the five control characters with a short form use it, any other byte below 0x20 and
  the characters less-than, greater-than and ampersand become a six-character escape
  (backslash, u, four hex digits); malformed UTF-8 becomes the escape of U+FFFD, and
  U+2028 and U+2029 are escaped.
\<close>

function appendString :: "string \<Rightarrow> string" where
  "appendString [] = []"
| "appendString (c # cs) =
     (if byte c < 0x80 then
        (if c = CHR 0x22 \<or> c = CHR 0x5C then [CHR 0x5C, c]
         else if c = CHR 0x08 then [CHR 0x5C, CHR ''b'']
         else if c = CHR 0x0C then [CHR 0x5C, CHR ''f'']
         else if c = CHR 0x0A then [CHR 0x5C, CHR ''n'']
         else if c = CHR 0x0D then [CHR 0x5C, CHR ''r'']
         else if c = CHR 0x09 then [CHR 0x5C, CHR ''t'']
         else if byte c < 0x20 \<or> c = CHR ''<'' \<or> c = CHR ''>'' \<or> c = CHR ''&'' then
           [CHR 0x5C, CHR ''u'', CHR ''0'', CHR ''0'',
            hex_digit (byte c div 16), hex_digit (byte c mod 16)]
         else [c]) @ appendString cs
      else if utf8_len (c # cs) = 0 then
        [CHR 0x5C, CHR ''u'', CHR ''f'', CHR ''f'', CHR ''f'', CHR ''d''] @ appendString cs
      else if take 3 (c # cs) = [CHR 0xE2, CHR 0x80, CHR 0xA8] then
        [CHR 0x5C, CHR ''u'', CHR ''2'', CHR ''0'', CHR ''2'', CHR ''8''] @ appendString (drop 2 cs)
      else if take 3 (c # cs) = [CHR 0xE2, CHR 0x80, CHR 0xA9] then
        [CHR 0x5C, CHR ''u'', CHR ''2'', CHR ''0'', CHR ''2'', CHR ''9''] @ appendString (drop 2 cs)
      else take (utf8_len (c # cs)) (c # cs) @ appendString (drop (utf8_len (c # cs)) (c # cs)))"
  by pat_completeness auto
termination
  by (relation "measure length") auto

definition quote :: "string \<Rightarrow> string" where
  "quote s = [CHR 0x22] @ appendString s @ [CHR 0x22]"

text \<open>
  One struct, compact: the fields in declaration order under their tags, none omitted.
\<close>

definition encode_Post :: "Post \<Rightarrow> string" where
  "encode_Post p =
     ''{\"Title\":'' @ quote (Title p) @
     '',\"Content\":'' @ quote (Content p) @
     '',\"CreatedAt\":'' @ quote (CreatedAt p) @
     '',\"Author\":'' @ quote (Author p) @
     '',\"ViewCount\":'' @ FormatInt (sint (ViewCount p)) @
     '',\"LastViewed\":'' @ quote (LastViewed p) @ ''}''"

fun join :: "string \<Rightarrow> string list \<Rightarrow> string" where
  "join sep [] = []"
| "join sep [x] = x"
| "join sep (x # y # ys) = x @ sep @ join sep (y # ys)"

text \<open>\<open>json.Marshal\<close> of a slice: a nil slice is \<open>null\<close>, any other a JSON array.\<close>

definition Marshal :: "slice \<Rightarrow> string" where
  "Marshal s =
     (case s of
        None \<Rightarrow> ''null''
      | Some ps \<Rightarrow> ''['' @ join '','' (map encode_Post ps) @ '']'')"

text \<open>
  \<open>json.NewEncoder(w).Encode(v)\<close> writes the compact encoding and a newline; no
  indentation is set on the encoder.
\<close>

definition Encode :: "slice \<Rightarrow> string" where
  "Encode s = Marshal s @ [CHR 0x0A]"

text \<open>
  One struct as \<open>json.MarshalIndent(posts, "", "  ")\<close> lays it out at depth 1: the
  braces at two spaces, the members at four, a space after each colon.
\<close>

definition indent_Post :: "Post \<Rightarrow> string" where
  "indent_Post p =
     ''  {\<newline>'' @
     ''    \"Title\": '' @ quote (Title p) @ '',\<newline>'' @
     ''    \"Content\": '' @ quote (Content p) @ '',\<newline>'' @
     ''    \"CreatedAt\": '' @ quote (CreatedAt p) @ '',\<newline>'' @
     ''    \"Author\": '' @ quote (Author p) @ '',\<newline>'' @
     ''    \"ViewCount\": '' @ FormatInt (sint (ViewCount p)) @ '',\<newline>'' @
     ''    \"LastViewed\": '' @ quote (LastViewed p) @ ''\<newline>'' @
     ''  }''"

definition MarshalIndent :: "slice \<Rightarrow> string" where
  "MarshalIndent s =
     (case s of
        None \<Rightarrow> ''null''
      | Some [] \<Rightarrow> ''[]''
      | Some ps \<Rightarrow> ''[\<newline>'' @ join '',\<newline>'' (map indent_Post ps) @ ''\<newline>]'')"

subsection \<open>encoding/json: the syntax of a document\<close>

text \<open>
  \<open>json.Unmarshal\<close> first checks the whole input against the JSON grammar and returns
  a syntax error, touching nothing, when the check fails. The check is modelled by a
  lexer and a pushdown parser that accept the same inputs and build the document.
\<close>

datatype token =
  LBrace | RBrace | LBrack | RBrack | Colon | Comma
| TString string | TNumber string | TTrue | TFalse | TNull

datatype json =
  JNull | JBool bool | JNumber string | JString string
| JArray "json list" | JObject "(string \<times> json) list"

definition is_digit :: "char \<Rightarrow> bool" where
  "is_digit c = between 48 57 c"

definition hexval :: "char \<Rightarrow> nat option" where
  "hexval c =
     (if between 48 57 c then Some (byte c - 48)
      else if between 97 102 c then Some (byte c - 87)
      else if between 65 70 c then Some (byte c - 55)
      else None)"

text \<open>The four hex digits after \<open>\u\<close>, as a number.\<close>

definition getu4 :: "string \<Rightarrow> nat option" where
  "getu4 s =
     (case s of
        a # b # c # d # _ \<Rightarrow>
          (case (hexval a, hexval b, hexval c, hexval d) of
             (Some x, Some y, Some z, Some u) \<Rightarrow> Some (((x * 16 + y) * 16 + z) * 16 + u)
           | _ \<Rightarrow> None)
      | _ \<Rightarrow> None)"

definition unescape :: "char \<Rightarrow> char option" where
  "unescape e =
     (if e = CHR 0x22 \<or> e = CHR 0x5C \<or> e = CHR ''/'' then Some e
      else if e = CHR ''b'' then Some (CHR 0x08)
      else if e = CHR ''f'' then Some (CHR 0x0C)
      else if e = CHR ''n'' then Some (CHR 0x0A)
      else if e = CHR ''r'' then Some (CHR 0x0D)
      else if e = CHR ''t'' then Some (CHR 0x09)
      else None)"

definition prepend :: "string \<Rightarrow> (string \<times> string) option \<Rightarrow> (string \<times> string) option" where
  "prepend x r = (case r of None \<Rightarrow> None | Some (s, rest) \<Rightarrow> Some (x @ s, rest))"

text \<open>
  A string literal, read from behind its opening quote: the decoded bytes and the input
  behind the closing quote. A byte below 0x20 and an unknown escape are syntax errors.
  A \<open>\u\<close> escape yields the UTF-8 of its code point; a high surrogate followed by the
  escape of a low one yields the pair's code point, any other surrogate U+FFFD.
  Malformed UTF-8 in the input is replaced by U+FFFD, byte by byte.
\<close>

function lex_string :: "string \<Rightarrow> (string \<times> string) option" where
  "lex_string [] = None"
| "lex_string (c # cs) =
     (if c = CHR 0x22 then Some ([], cs)
      else if c = CHR 0x5C then
        (case cs of
           [] \<Rightarrow> None
         | e # r \<Rightarrow>
             if e = CHR ''u'' then
               (case getu4 r of
                  None \<Rightarrow> None
                | Some rr \<Rightarrow>
                    if 0xD800 \<le> rr \<and> rr < 0xE000 then
                      (case (if take 2 (drop 4 r) = [CHR 0x5C, CHR ''u'']
                             then getu4 (drop 6 r) else None) of
                         None \<Rightarrow> prepend replacement (lex_string (drop 4 r))
                       | Some rr1 \<Rightarrow>
                           if rr < 0xDC00 \<and> 0xDC00 \<le> rr1 \<and> rr1 < 0xE000
                           then prepend
                                  (encodeRune ((rr - 0xD800) * 1024 + (rr1 - 0xDC00) + 0x10000))
                                  (lex_string (drop 10 r))
                           else prepend replacement (lex_string (drop 4 r)))
                    else prepend (encodeRune rr) (lex_string (drop 4 r)))
             else
               (case unescape e of
                  None \<Rightarrow> None
                | Some b \<Rightarrow> prepend [b] (lex_string r)))
      else if byte c < 0x20 then None
      else if byte c < 0x80 then prepend [c] (lex_string cs)
      else if utf8_len (c # cs) = 0 then prepend replacement (lex_string cs)
      else prepend (take (utf8_len (c # cs)) (c # cs))
             (lex_string (drop (utf8_len (c # cs)) (c # cs))))"
  by pat_completeness auto
termination
  by (relation "measure length") auto

text \<open>
  The length of the number literal at the head of the input: an optional minus, then
  \<open>0\<close> or a digit string without leading zero, then an optional fraction and an
  optional exponent, each with at least one digit. \<open>None\<close> when there is no literal.
\<close>

definition digit_run :: "string \<Rightarrow> nat" where
  "digit_run s = length (takeWhile is_digit s)"

definition int_len :: "string \<Rightarrow> nat" where
  "int_len s = (if take 1 s = ''0'' then 1 else digit_run s)"

definition frac_len :: "string \<Rightarrow> nat option" where
  "frac_len s =
     (if take 1 s = ''.'' then
        (if digit_run (drop 1 s) = 0 then None else Some (Suc (digit_run (drop 1 s))))
      else Some 0)"

definition exp_len :: "string \<Rightarrow> nat option" where
  "exp_len s =
     (if take 1 s = ''e'' \<or> take 1 s = ''E'' then
        (let sx = (if take 1 (drop 1 s) = ''+'' \<or> take 1 (drop 1 s) = ''-'' then 1 else 0)
         in if digit_run (drop (Suc sx) s) = 0 then None
            else Some (Suc sx + digit_run (drop (Suc sx) s)))
      else Some 0)"

definition lex_number :: "string \<Rightarrow> nat option" where
  "lex_number s =
     (let sg = (if take 1 s = ''-'' then 1 else 0);
          ni = int_len (drop sg s)
      in if ni = 0 then None
         else (case frac_len (drop (sg + ni) s) of
                 None \<Rightarrow> None
               | Some nf \<Rightarrow>
                   (case exp_len (drop (sg + ni + nf) s) of
                      None \<Rightarrow> None
                    | Some ne \<Rightarrow> Some (sg + ni + nf + ne))))"

text \<open>Both scanners consume input, which is what makes the lexer terminate.\<close>

lemma prepend_Some: "prepend x r = Some (d, rest) \<Longrightarrow> \<exists>d'. r = Some (d', rest)"
  by (auto simp: prepend_def split: option.splits)

lemma lex_string_shorter: "lex_string s = Some (d, rest) \<Longrightarrow> length rest < length s"
proof (induction "length s" arbitrary: s d rest rule: less_induct)
  case less
  note IH = less.hyps
  show ?case
  proof (cases s)
    case Nil
    with less.prems show ?thesis by simp
  next
    case (Cons c cs)
    have step: "\<And>t x. prepend x (lex_string t) = Some (d, rest)
                  \<Longrightarrow> length t < length s \<longrightarrow> length rest < length t"
    proof
      fix t x
      assume b: "prepend x (lex_string t) = Some (d, rest)" and a: "length t < length s"
      from prepend_Some [OF b] obtain d' where "lex_string t = Some (d', rest)" by blast
      then show "length rest < length t" using IH a by blast
    qed
    show ?thesis
      using less.prems unfolding Cons lex_string.simps
      by (auto split: if_splits list.splits option.splits
               dest!: step [unfolded Cons] simp del: lex_string.simps)
  qed
qed

lemma lex_number_pos:
  assumes "lex_number s = Some n"
  shows "0 < n"
proof -
  define sg :: nat where "sg = (if take 1 s = ''-'' then 1 else 0)"
  define ni where "ni = int_len (drop sg s)"
  have eq: "lex_number s =
     (if ni = 0 then None
      else (case frac_len (drop (sg + ni) s) of
              None \<Rightarrow> None
            | Some nf \<Rightarrow>
                (case exp_len (drop (sg + ni + nf) s) of
                   None \<Rightarrow> None
                 | Some ne \<Rightarrow> Some (sg + ni + nf + ne))))"
    unfolding lex_number_def sg_def ni_def Let_def ..
  show ?thesis
  proof (cases "ni = 0")
    case True
    with assms eq show ?thesis by simp
  next
    case False
    with assms eq show ?thesis by (simp split: option.splits)
  qed
qed

definition cons_token :: "token \<Rightarrow> token list option \<Rightarrow> token list option" where
  "cons_token t r = (case r of None \<Rightarrow> None | Some ts \<Rightarrow> Some (t # ts))"

function lex :: "string \<Rightarrow> token list option" where
  "lex [] = Some []"
| "lex (c # cs) =
     (if c = CHR '' '' \<or> c = CHR 0x09 \<or> c = CHR 0x0D \<or> c = CHR 0x0A then lex cs
      else if c = CHR ''{'' then cons_token LBrace (lex cs)
      else if c = CHR ''}'' then cons_token RBrace (lex cs)
      else if c = CHR ''['' then cons_token LBrack (lex cs)
      else if c = CHR '']'' then cons_token RBrack (lex cs)
      else if c = CHR '':'' then cons_token Colon (lex cs)
      else if c = CHR '','' then cons_token Comma (lex cs)
      else if c = CHR 0x22 then
        (case lex_string cs of
           None \<Rightarrow> None
         | Some (s, rest) \<Rightarrow> cons_token (TString s) (lex rest))
      else if c = CHR ''-'' \<or> is_digit c then
        (case lex_number (c # cs) of
           None \<Rightarrow> None
         | Some n \<Rightarrow> cons_token (TNumber (take n (c # cs))) (lex (drop n (c # cs))))
      else if take 4 (c # cs) = ''true'' then cons_token TTrue (lex (drop 3 cs))
      else if take 5 (c # cs) = ''false'' then cons_token TFalse (lex (drop 4 cs))
      else if take 4 (c # cs) = ''null'' then cons_token TNull (lex (drop 3 cs))
      else None)"
  by pat_completeness auto
termination
proof (relation "measure length", goal_cases)
  case 1
  show ?case by simp
next
  case (9 c cs x2 x y)
  have "lex_string cs = Some (x, y)"
    using \<open>lex_string cs = Some x2\<close> \<open>(x, y) = x2\<close> by simp
  from lex_string_shorter [OF this] show ?case by simp
next
  case (10 c cs n)
  from lex_number_pos [OF \<open>lex_number (c # cs) = Some n\<close>] show ?case
    by (cases n) simp_all
qed simp_all

text \<open>
  The parser is a pushdown automaton over the tokens, as the scanner of the library is
  over the bytes. A frame of the stack is an array or an object under construction
  (members in reverse), or an object that has read a key and waits for its value.
\<close>

datatype frame =
  FArray "json list"
| FObject "(string \<times> json) list"
| FMember "(string \<times> json) list" string

datatype pstate =
  BeginValue "frame list"
| BeginValueOrEmpty "frame list"
| BeginStringOrEmpty "frame list"
| BeginString "frame list"
| ExpectColon "frame list"
| EndValue "frame list"
| EndTop json
| SyntaxError

text \<open>The library refuses a document nested deeper than 10000 levels.\<close>

definition maxNestingDepth :: nat where
  "maxNestingDepth = 10000"

definition push :: "frame \<Rightarrow> frame list \<Rightarrow> (frame list \<Rightarrow> pstate) \<Rightarrow> pstate" where
  "push f stk k = (if length stk < maxNestingDepth then k (f # stk) else SyntaxError)"

text \<open>A value is complete: it goes to the frame on top, or ends the document.\<close>

definition complete :: "json \<Rightarrow> frame list \<Rightarrow> pstate" where
  "complete v stk =
     (case stk of
        [] \<Rightarrow> EndTop v
      | FArray es # r \<Rightarrow> EndValue (FArray (v # es) # r)
      | FMember ms k # r \<Rightarrow> EndValue (FObject ((k, v) # ms) # r)
      | FObject ms # r \<Rightarrow> SyntaxError)"

definition begin_value :: "token \<Rightarrow> frame list \<Rightarrow> pstate" where
  "begin_value t stk =
     (case t of
        LBrack \<Rightarrow> push (FArray []) stk BeginValueOrEmpty
      | LBrace \<Rightarrow> push (FObject []) stk BeginStringOrEmpty
      | TString s \<Rightarrow> complete (JString s) stk
      | TNumber n \<Rightarrow> complete (JNumber n) stk
      | TTrue \<Rightarrow> complete (JBool True) stk
      | TFalse \<Rightarrow> complete (JBool False) stk
      | TNull \<Rightarrow> complete JNull stk
      | _ \<Rightarrow> SyntaxError)"

definition begin_string :: "token \<Rightarrow> frame list \<Rightarrow> pstate" where
  "begin_string t stk =
     (case (t, stk) of
        (TString k, FObject ms # r) \<Rightarrow> ExpectColon (FMember ms k # r)
      | _ \<Rightarrow> SyntaxError)"

definition step :: "pstate \<Rightarrow> token \<Rightarrow> pstate" where
  "step st t =
     (case st of
        BeginValue stk \<Rightarrow> begin_value t stk
      | BeginValueOrEmpty stk \<Rightarrow>
          (case (t, stk) of
             (RBrack, FArray es # r) \<Rightarrow> complete (JArray (rev es)) r
           | _ \<Rightarrow> begin_value t stk)
      | BeginStringOrEmpty stk \<Rightarrow>
          (case (t, stk) of
             (RBrace, FObject ms # r) \<Rightarrow> complete (JObject (rev ms)) r
           | _ \<Rightarrow> begin_string t stk)
      | BeginString stk \<Rightarrow> begin_string t stk
      | ExpectColon stk \<Rightarrow> (case t of Colon \<Rightarrow> BeginValue stk | _ \<Rightarrow> SyntaxError)
      | EndValue stk \<Rightarrow>
          (case (t, stk) of
             (Comma, FArray es # r) \<Rightarrow> BeginValue stk
           | (RBrack, FArray es # r) \<Rightarrow> complete (JArray (rev es)) r
           | (Comma, FObject ms # r) \<Rightarrow> BeginString stk
           | (RBrace, FObject ms # r) \<Rightarrow> complete (JObject (rev ms)) r
           | _ \<Rightarrow> SyntaxError)
      | EndTop v \<Rightarrow> SyntaxError
      | SyntaxError \<Rightarrow> SyntaxError)"

definition parse :: "string \<Rightarrow> json option" where
  "parse s =
     (case lex s of
        None \<Rightarrow> None
      | Some ts \<Rightarrow> (case foldl step (BeginValue []) ts of EndTop v \<Rightarrow> Some v | _ \<Rightarrow> None))"

subsection \<open>encoding/json: decoding into the program's types\<close>

text \<open>
  A member of a JSON object goes to the struct field whose name equals its key, or
  else equals it under the library's case folding: ASCII letters fold to upper case,
  and so do the two letters outside ASCII that fold to an ASCII one, U+017F to S and
  U+212A to K. A key that matches no field is skipped.
\<close>

datatype field = FTitle | FContent | FCreatedAt | FAuthor | FViewCount | FLastViewed

definition fields :: "(string \<times> field) list" where
  "fields =
     [(''Title'', FTitle), (''Content'', FContent), (''CreatedAt'', FCreatedAt),
      (''Author'', FAuthor), (''ViewCount'', FViewCount), (''LastViewed'', FLastViewed)]"

definition upper :: "char \<Rightarrow> char" where
  "upper c = (if between 97 122 c then ''ABCDEFGHIJKLMNOPQRSTUVWXYZ'' ! (byte c - 97) else c)"

function foldName :: "string \<Rightarrow> string" where
  "foldName [] = []"
| "foldName (c # cs) =
     (if take 2 (c # cs) = [CHR 0xC5, CHR 0xBF] then CHR ''S'' # foldName (drop 1 cs)
      else if take 3 (c # cs) = [CHR 0xE2, CHR 0x84, CHR 0xAA] then CHR ''K'' # foldName (drop 2 cs)
      else upper c # foldName cs)"
  by pat_completeness auto
termination
  by (relation "measure length") simp_all

definition find_field :: "string \<Rightarrow> field option" where
  "find_field key =
     (case map_of fields key of
        Some f \<Rightarrow> Some f
      | None \<Rightarrow> map_of (map (\<lambda>(n, f). (foldName n, f)) fields) (foldName key))"

text \<open>
  \<open>strconv.ParseInt(s, 10, 64)\<close> on a JSON number literal: the literal must be an
  optional minus and digits only, and its value must fit 64 bits.
\<close>

definition decimal :: "string \<Rightarrow> int" where
  "decimal ds = foldl (\<lambda>a c. 10 * a + int (byte c - 48)) 0 ds"

definition ParseInt :: "string \<Rightarrow> 64 word option" where
  "ParseInt s =
     (let neg = (take 1 s = ''-'');
          ds = (if neg then drop 1 s else s)
      in if ds = [] \<or> \<not> list_all is_digit ds then None
         else if neg then
           (if decimal ds \<le> 9223372036854775808 then Some (word_of_int (- decimal ds))
            else None)
         else
           (if decimal ds < 9223372036854775808 then Some (word_of_int (decimal ds))
            else None))"

definition set_string :: "field \<Rightarrow> string \<Rightarrow> Post \<Rightarrow> Post" where
  "set_string f s p =
     (case f of
        FTitle \<Rightarrow> p\<lparr>Title := s\<rparr>
      | FContent \<Rightarrow> p\<lparr>Content := s\<rparr>
      | FCreatedAt \<Rightarrow> p\<lparr>CreatedAt := s\<rparr>
      | FAuthor \<Rightarrow> p\<lparr>Author := s\<rparr>
      | FViewCount \<Rightarrow> p
      | FLastViewed \<Rightarrow> p\<lparr>LastViewed := s\<rparr>)"

text \<open>
  One value into one field; the Boolean says that the value has the wrong type for the
  field (an \<open>UnmarshalTypeError\<close>), in which case the field keeps what it had and
  decoding goes on. JSON \<open>null\<close> changes nothing and is no error.
\<close>

definition store :: "field \<Rightarrow> json \<Rightarrow> Post \<Rightarrow> Post \<times> bool" where
  "store f v p =
     (case v of
        JNull \<Rightarrow> (p, False)
      | JString s \<Rightarrow> if f = FViewCount then (p, True) else (set_string f s p, False)
      | JNumber n \<Rightarrow>
          if f = FViewCount then
            (case ParseInt n of
               Some i \<Rightarrow> (p\<lparr>ViewCount := i\<rparr>, False)
             | None \<Rightarrow> (p, True))
          else (p, True)
      | _ \<Rightarrow> (p, True))"

fun decode_members :: "(string \<times> json) list \<Rightarrow> Post \<Rightarrow> Post \<times> bool" where
  "decode_members [] p = (p, False)"
| "decode_members ((k, v) # ms) p =
     (case find_field k of
        None \<Rightarrow> decode_members ms p
      | Some f \<Rightarrow>
          (let (p1, e1) = store f v p;
               (p2, e2) = decode_members ms p1
           in (p2, e1 \<or> e2)))"

text \<open>A value into a struct: an object member by member; anything else but null is an error.\<close>

definition decode_Post :: "json \<Rightarrow> Post \<Rightarrow> Post \<times> bool" where
  "decode_Post v p =
     (case v of
        JObject ms \<Rightarrow> decode_members ms p
      | JNull \<Rightarrow> (p, False)
      | _ \<Rightarrow> (p, True))"

text \<open>
  \<open>json.Unmarshal(body, &newPost)\<close> in \<open>create\<close>: the struct afterwards, and whether
  an error is returned. A syntax error leaves the struct untouched.
\<close>

definition Unmarshal_Post :: "string \<Rightarrow> Post \<Rightarrow> Post \<times> bool" where
  "Unmarshal_Post data p =
     (case parse data of
        None \<Rightarrow> (p, True)
      | Some v \<Rightarrow> decode_Post v p)"

text \<open>
  The elements of a JSON array into a slice: element \<open>i\<close> is decoded over what the
  slice held at \<open>i\<close>, over the zero value beyond its length.
\<close>

fun decode_elements :: "json list \<Rightarrow> Post list \<Rightarrow> Post list \<times> bool" where
  "decode_elements [] old = ([], False)"
| "decode_elements (v # vs) old =
     (let (p, e) = decode_Post v (case old of [] \<Rightarrow> zero_Post | q # _ \<Rightarrow> q);
          (ps, es) = decode_elements vs (tl old)
      in (p # ps, e \<or> es))"

text \<open>
  \<open>json.Unmarshal(data, &posts)\<close> in \<open>loadPost\<close>. There \<open>posts\<close> is itself a pointer
  (the parameter, of type \<open>*[]Post\<close>), so the call passes a pointer to a pointer. The
  library follows the pointers to the caller's slice and decodes an array into it.
  For the JSON literal \<open>null\<close>, it sets the pointer it was given the address of to nil:
  the parameter \<open>posts\<close>, not the caller's slice. The result is the parameter
  afterwards, the caller's slice afterwards and whether an error is returned.
\<close>

datatype pointer = NilPointer | ToCallersSlice

definition Unmarshal_posts :: "string \<Rightarrow> slice \<Rightarrow> pointer \<times> slice \<times> bool" where
  "Unmarshal_posts data s =
     (case parse data of
        None \<Rightarrow> (ToCallersSlice, s, True)
      | Some JNull \<Rightarrow> (NilPointer, s, False)
      | Some (JArray vs) \<Rightarrow>
          (let (ps, e) = decode_elements vs (elems s) in (ToCallersSlice, Some ps, e))
      | Some _ \<Rightarrow> (ToCallersSlice, s, True))"

subsection \<open>net/http: the response writer and the request\<close>

text \<open>
  \<open>hdr\<close> is the header map of the writer, \<open>sent\<close> the status code and the headers
  as they went out with the first \<open>WriteHeader\<close> or \<open>Write\<close> (later changes of the map
  and later calls of \<open>WriteHeader\<close> have no effect), \<open>resp_body\<close> the bytes
  written.
\<close>

record response =
  hdr :: "(string \<times> string) list"
  sent :: "(nat \<times> (string \<times> string) list) option"
  resp_body :: string

definition new_response :: response where
  "new_response = \<lparr>hdr = [], sent = None, resp_body = []\<rparr>"

definition Header_Del :: "string \<Rightarrow> response \<Rightarrow> response" where
  "Header_Del k rw = rw\<lparr>hdr := filter (\<lambda>kv. fst kv \<noteq> k) (hdr rw)\<rparr>"

definition Header_Set :: "string \<Rightarrow> string \<Rightarrow> response \<Rightarrow> response" where
  "Header_Set k v rw = rw\<lparr>hdr := (k, v) # filter (\<lambda>kv. fst kv \<noteq> k) (hdr rw)\<rparr>"

definition WriteHeader :: "nat \<Rightarrow> response \<Rightarrow> response" where
  "WriteHeader code rw = (if sent rw = None then rw\<lparr>sent := Some (code, hdr rw)\<rparr> else rw)"

definition Write :: "string \<Rightarrow> response \<Rightarrow> response" where
  "Write s rw = (let rw1 = WriteHeader 200 rw in rw1\<lparr>resp_body := resp_body rw1 @ s\<rparr>)"

text \<open>\<open>http.Error(w, msg, code)\<close>.\<close>

definition http_Error :: "string \<Rightarrow> nat \<Rightarrow> response \<Rightarrow> response" where
  "http_Error msg code rw =
     Write (msg @ ''\<newline>'')
       (WriteHeader code
          (Header_Set ''X-Content-Type-Options'' ''nosniff''
             (Header_Set ''Content-Type'' ''text/plain; charset=utf-8''
                (Header_Del ''Content-Length'' rw))))"

text \<open>The status the client sees: 200 when the handler returns without writing.\<close>

definition status :: "response \<Rightarrow> nat" where
  "status rw = (case sent rw of None \<Rightarrow> 200 | Some (code, _) \<Rightarrow> code)"

text \<open>
  A request: its method, the path of its URL (the request target in origin form, which
  begins with a slash), and its body (\<open>None\<close> when \<open>io.ReadAll(r.Body)\<close> fails).
\<close>

record request =
  Method :: string
  Path :: string
  Body :: "string option"

subsection \<open>savePosts and loadPost\<close>

definition savePosts :: "slice \<Rightarrow> world \<Rightarrow> bool \<times> world" where
  "savePosts posts w = os_WriteFile (MarshalIndent posts) w"

text \<open>
  A function either returns or panics; a panic in a handler ends the handler (net/http
  recovers it and drops the connection).
\<close>

datatype 'a result = Returned 'a | Panicked

definition loading_line :: "Post \<Rightarrow> string" where
  "loading_line post = ''Loading Post '' @ [CHR 0x27] @ Title post @ [CHR 0x27] @ '' in memory\<newline>''"

text \<open>
  \<open>loadPost(&posts, w)\<close>: the first argument is the caller's slice, which the function
  changes through the pointer. After a failed read the function reports the error and
  goes on with no data. \<open>range *posts\<close> dereferences the parameter and panics when
  \<open>Unmarshal\<close> has set it to nil.
\<close>

definition loadPost :: "slice \<Rightarrow> response \<Rightarrow> world \<Rightarrow> (slice \<times> response \<times> world) result" where
  "loadPost posts rw w =
     (let (data, err) = os_ReadFile w;
          rw1 = (if err then http_Error ''Error reading request body'' 500 rw else rw);
          (p, posts1, uerr) = Unmarshal_posts data posts
      in case p of
           NilPointer \<Rightarrow> Panicked
         | ToCallersSlice \<Rightarrow>
             Returned (posts1, rw1,
               w\<lparr>stdout := stdout w @ concat (map loading_line (elems posts1))\<rparr>))"

subsection \<open>The handlers\<close>

text \<open>
  The loop of \<open>index\<close>: \<open>for i := 0; i < len(posts); i++\<close>, updating \<open>posts[i]\<close> in
  place through a pointer.
\<close>

function index_loop :: "nat \<Rightarrow> Post list \<Rightarrow> world \<Rightarrow> Post list \<times> world" where
  "index_loop i posts w =
     (if i < length posts then
        (let post = increaseViewCount (posts ! i);
             (post1, w1) = setLastViewed post w
         in index_loop (i + 1) (posts[i := post1]) w1)
      else (posts, w))"
  by pat_completeness auto
termination
  by (relation "measure (\<lambda>(i, posts, w). length posts - i)") (auto simp: setLastViewed_def)

text \<open>
  What a request comes to: the handler returns, having changed the world and written a
  response; or it panics; or the mux redirects the client to another path and calls no
  handler.
\<close>

datatype outcome = Done world response | Panic world | Redirect string world

definition index :: "response \<Rightarrow> request \<Rightarrow> world \<Rightarrow> outcome" where
  "index rw r w =
     (case loadPost None rw w of
        Panicked \<Rightarrow> Panic w
      | Returned (posts, rw1, w1) \<Rightarrow>
          (let (posts2, w2) =
                 (case posts of
                    None \<Rightarrow> (None, w1)
                  | Some ps \<Rightarrow> (let (ps2, w2) = index_loop 0 ps w1 in (Some ps2, w2)));
               (err, w3) = savePosts posts2 w2;
               rw2 = Header_Set ''Content-Type'' ''application/json'' rw1;
               rw3 = Write (Encode posts2) rw2
           in Done w3 rw3))"

definition create :: "response \<Rightarrow> request \<Rightarrow> world \<Rightarrow> outcome" where
  "create rw r w =
     (if Method r \<noteq> ''POST'' then
        Done w (http_Error ''Please submit a post request'' 405 rw)
      else
        (case Body r of
           None \<Rightarrow> Done w (http_Error ''Error reading request body'' 400 rw)
         | Some body \<Rightarrow>
             (let (newPost, uerr) = Unmarshal_Post body zero_Post;
                  (newPost1, w1) = setCreatedAt newPost w;
                  (newPost2, w2) = setLastViewed newPost1 w1;
                  newPost3 = newPost2\<lparr>ViewCount := 0\<rparr>
              in case loadPost None rw w2 of
                   Panicked \<Rightarrow> Panic w2
                 | Returned (posts, rw1, w3) \<Rightarrow>
                     (let posts1 = append_slice posts newPost3;
                          (err, w4) = savePosts posts1 w3
                      in Done w4 (Write ''Post successfully created'' rw1)))))"

text \<open>
  \<open>path.Clean\<close> on a rooted path: empty elements and \<open>.\<close> elements go, a \<open>..\<close>
  element goes together with the element before it, or alone at the root.
\<close>

fun elements :: "string \<Rightarrow> string \<Rightarrow> string list" where
  "elements acc [] = [acc]"
| "elements acc (c # cs) =
     (if c = CHR ''/'' then acc # elements [] cs else elements (acc @ [c]) cs)"

fun clean_elements :: "string list \<Rightarrow> string list \<Rightarrow> string list" where
  "clean_elements stk [] = rev stk"
| "clean_elements stk (e # es) =
     (if e = [] \<or> e = ''.'' then clean_elements stk es
      else if e = ''..'' then clean_elements (tl stk) es
      else clean_elements (e # stk) es)"

definition Clean :: "string \<Rightarrow> string" where
  "Clean p = CHR ''/'' # join ''/'' (clean_elements [] (elements [] p))"

text \<open>
  \<open>cleanPath\<close> of net/http: the path made rooted and cleaned, with the trailing slash
  put back.
\<close>

definition cleanPath :: "string \<Rightarrow> string" where
  "cleanPath p =
     (if p = [] then ''/''
      else (let p1 = (if hd p \<noteq> CHR ''/'' then CHR ''/'' # p else p);
                np = Clean p1
            in if last p1 = CHR ''/'' \<and> np \<noteq> ''/'' then np @ ''/'' else np))"

text \<open>
  \<open>main\<close> registers the two handlers on the default mux under the patterns
  \<open>/index\<close> and \<open>/create\<close>, which match exactly these paths, whatever the method.
  The mux redirects a request whose path is not clean to the cleaned path (the status
  code of the redirect differs between releases of the library and is left out), except
  for the method CONNECT, and answers any other path with 404.
\<close>

definition serve :: "request \<Rightarrow> world \<Rightarrow> outcome" where
  "serve r w =
     (if Method r \<noteq> ''CONNECT'' \<and> cleanPath (Path r) \<noteq> Path r
      then Redirect (cleanPath (Path r)) w
      else if Path r = ''/index'' then index new_response r w
      else if Path r = ''/create'' then create new_response r w
      else Done w (http_Error ''404 page not found'' 404 new_response))"

text \<open>
  The connection that carries the request hands the handler its response writer and
  sends what the handler writes, except that the answer to a HEAD request has no body:
  the writer takes the bytes and drops them. After a panic the server closes the
  connection without an answer.
\<close>

definition finishRequest :: "request \<Rightarrow> response \<Rightarrow> response" where
  "finishRequest r rw = (if Method r = ''HEAD'' then rw\<lparr>resp_body := []\<rparr> else rw)"

definition conn_serve :: "request \<Rightarrow> world \<Rightarrow> outcome" where
  "conn_serve r w =
     (case serve r w of
        Done w1 rw \<Rightarrow> Done w1 (finishRequest r rw)
      | Panic w1 \<Rightarrow> Panic w1
      | Redirect p w1 \<Rightarrow> Redirect p w1)"

subsection \<open>A world to run the handlers in\<close>

text \<open>
  posts.json holds one record, titled \<open>a\<close> and viewed seven times; the file can be
  read and written, and the clock shows one date.
\<close>

definition example_world :: world where
  "example_world =
     \<lparr>disk = Some ''[{\"Title\":\"a\",\"ViewCount\":7}]'', can_read = True, can_write = True,
      room = None, dates = (\<lambda>k. ''2025-05-01''), calls = 0, stdout = []\<rparr>"

text \<open>The record of that file, before and after one enumeration on that date.\<close>

definition example_post :: Post where
  "example_post = zero_Post\<lparr>Title := ''a'', ViewCount := 7\<rparr>"

definition example_post_viewed :: Post where
  "example_post_viewed = zero_Post\<lparr>Title := ''a'', ViewCount := 8, LastViewed := ''2025-05-01''\<rparr>"

text \<open>The world once \<open>loadPost\<close> has printed its line.\<close>

definition example_world_loaded :: world where
  "example_world_loaded = example_world\<lparr>stdout := loading_line example_post\<rparr>"

text \<open>
  A request body that supplies a title and, uninvited, a view count and a creation
  date; and the record that \<open>create\<close> makes of it on that date.
\<close>

definition example_body :: string where
  "example_body = ''{\"title\":\"x\",\"ViewCount\":99,\"CreatedAt\":\"1999-01-01\"}''"

definition example_new_post :: Post where
  "example_new_post =
     \<lparr>Title = ''x'', Content = [], CreatedAt = ''2025-05-01'', Author = [],
      ViewCount = 0, LastViewed = ''2025-05-01''\<rparr>"

text \<open>The same world without posts.json, and with a posts.json that holds \<open>null\<close>.\<close>

definition missing_world :: world where
  "missing_world = example_world\<lparr>disk := None\<rparr>"

definition null_world :: world where
  "null_world = example_world\<lparr>disk := Some ''null''\<rparr>"

text \<open>
  Files and a body that are not what the program expects: a record whose view count is
  a string, a file that breaks off in the middle, and a body whose view count is a
  string.
\<close>

definition mistyped_file :: string where
  "mistyped_file = ''[{\"Title\":\"a\",\"ViewCount\":\"x\"}]''"

definition mistyped_world :: world where
  "mistyped_world = example_world\<lparr>disk := Some mistyped_file\<rparr>"

definition garbled_world :: world where
  "garbled_world = example_world\<lparr>disk := Some ''[{\"Title\":''\<rparr>"

definition mistyped_body :: string where
  "mistyped_body = ''{\"Title\":\"x\",\"ViewCount\":\"bad\"}''"

text \<open>
  A second file, as \<open>savePosts\<close> writes it: two records with every field set, a
  character that the encoder escapes in the first title and a negative view count in
  the second. In the world around it, midnight falls between the first and the second
  reading of the clock.
\<close>

definition two_posts :: "Post list" where
  "two_posts =
     [\<lparr>Title = ''a<b'', Content = ''first'', CreatedAt = ''2025-04-01'', Author = ''Ann'',
       ViewCount = 7, LastViewed = ''2025-04-02''\<rparr>,
      \<lparr>Title = ''c'', Content = ''second'', CreatedAt = ''2025-04-03'', Author = ''Bob'',
       ViewCount = - 1, LastViewed = []\<rparr>]"

definition two_file :: string where
  "two_file =
          ''[\<newline>'' @
          ''  {\<newline>'' @
          ''    \"Title\": \"a'' @ [CHR 0x5C] @ ''u003cb\",\<newline>'' @
          ''    \"Content\": \"first\",\<newline>'' @
          ''    \"CreatedAt\": \"2025-04-01\",\<newline>'' @
          ''    \"Author\": \"Ann\",\<newline>'' @
          ''    \"ViewCount\": 7,\<newline>'' @
          ''    \"LastViewed\": \"2025-04-02\"\<newline>'' @
          ''  },\<newline>'' @
          ''  {\<newline>'' @
          ''    \"Title\": \"c\",\<newline>'' @
          ''    \"Content\": \"second\",\<newline>'' @
          ''    \"CreatedAt\": \"2025-04-03\",\<newline>'' @
          ''    \"Author\": \"Bob\",\<newline>'' @
          ''    \"ViewCount\": -1,\<newline>'' @
          ''    \"LastViewed\": \"\"\<newline>'' @
          ''  }\<newline>'' @
          '']''"

definition two_world :: world where
  "two_world =
     \<lparr>disk = Some two_file, can_read = True, can_write = True, room = None,
      dates = (\<lambda>k. if k = 0 then ''2025-05-01'' else ''2025-05-02''), calls = 0,
      stdout = []\<rparr>"

text \<open>
  The first world with a posts.json that cannot be opened for writing; the second
  world with a posts.json that cannot be read; and the latter on a device that takes
  twenty more bytes.
\<close>

definition readonly_world :: world where
  "readonly_world = example_world\<lparr>can_write := False\<rparr>"

definition unreadable_world :: world where
  "unreadable_world = two_world\<lparr>can_read := False\<rparr>"

definition cramped_world :: world where
  "cramped_world = unreadable_world\<lparr>room := Some 20\<rparr>"

section \<open>Properties\<close>

subsection \<open>The loop of index\<close>

text \<open>
  What the specification says of one enumeration, in its own words: every record, in
  order, has its view count incremented by one and its last-viewed date set to the
  date of the moment. Record \<open>k\<close> is stamped by the \<open>k\<close>-th reading of the clock.
\<close>

definition view :: "string \<Rightarrow> Post \<Rightarrow> Post" where
  "view d p = p\<lparr>ViewCount := ViewCount p + 1, LastViewed := d\<rparr>"

definition view_all :: "world \<Rightarrow> Post list \<Rightarrow> Post list" where
  "view_all w ps = map (\<lambda>k. view (dates w (calls w + k)) (ps ! k)) [0..<length ps]"

declare index_loop.simps [simp del]

lemma index_loop_length: "length (fst (index_loop i ps w)) = length ps"
proof (induction i ps w rule: index_loop.induct)
  case (1 i posts w)
  show ?case
  proof (cases "i < length posts")
    case True
    with 1 show ?thesis
      by (subst index_loop.simps) (simp add: setLastViewed_def Let_def)
  next
    case False
    then show ?thesis by (subst index_loop.simps) simp
  qed
qed

lemma index_loop_world:
  "snd (index_loop i ps w) = w\<lparr>calls := calls w + (length ps - i)\<rparr>"
proof (induction i ps w rule: index_loop.induct)
  case (1 i posts w)
  show ?case
  proof (cases "i < length posts")
    case True
    with 1 show ?thesis
      by (subst index_loop.simps) (simp add: setLastViewed_def Let_def tick_def Suc_diff_Suc)
  next
    case False
    then show ?thesis by (subst index_loop.simps) simp
  qed
qed

lemma index_loop_nth:
  "k < length ps \<Longrightarrow>
   fst (index_loop i ps w) ! k =
     (if k < i then ps ! k else view (dates w (calls w + (k - i))) (ps ! k))"
proof (induction i ps w arbitrary: k rule: index_loop.induct)
  case (1 i posts w)
  show ?case
  proof (cases "i < length posts")
    case True
    let ?p = "(increaseViewCount (posts ! i))\<lparr>LastViewed := today w\<rparr>"
    have e: "(?p, tick w) = setLastViewed (increaseViewCount (posts ! i)) w"
      by (simp add: setLastViewed_def)
    have "fst (index_loop i posts w) ! k = fst (index_loop (i + 1) (posts[i := ?p]) (tick w)) ! k"
      using True by (subst index_loop.simps) (simp add: setLastViewed_def Let_def)
    also have "\<dots> = (if k < i + 1 then (posts[i := ?p]) ! k
                      else view (dates (tick w) (calls (tick w) + (k - (i + 1))))
                             ((posts[i := ?p]) ! k))"
      using "1.IH" [OF True refl e] "1.prems" by simp
    also have "\<dots> = (if k < i then posts ! k else view (dates w (calls w + (k - i))) (posts ! k))"
    proof -
      consider "k < i" | "k = i" | "i < k" by arith
      then show ?thesis
      proof cases
        case 1
        then show ?thesis by simp
      next
        case 2
        with True show ?thesis
          by (simp add: view_def increaseViewCount_def today_def)
      next
        case 3
        then have "calls (tick w) + (k - (i + 1)) = calls w + (k - i)"
          by (simp add: tick_def)
        with 3 show ?thesis by (simp add: tick_def)
      qed
    qed
    finally show ?thesis .
  next
    case False
    with "1.prems" show ?thesis by (subst index_loop.simps) simp
  qed
qed

lemma index_loop_view_all: "index_loop 0 ps w = (view_all w ps, w\<lparr>calls := calls w + length ps\<rparr>)"
proof -
  have "fst (index_loop 0 ps w) = view_all w ps"
    by (rule nth_equalityI) (simp_all add: index_loop_length index_loop_nth view_all_def)
  moreover have "snd (index_loop 0 ps w) = w\<lparr>calls := calls w + length ps\<rparr>"
    using index_loop_world [of 0 ps w] by simp
  ultimately show ?thesis by (simp add: prod_eq_iff)
qed

subsection \<open>The texts that are saved and returned\<close>

text \<open>
  The two encodings of a collection after one enumeration, byte for byte: the compact
  one that goes to the response and the indented one that goes to the file.
\<close>

lemma Encode_view_all:
  "Encode (map_option (view_all w) s) =
     (case s of
        None \<Rightarrow> ''null''
      | Some ps \<Rightarrow>
          ''['' @ join '',''
            (map (\<lambda>k. ''{\"Title\":'' @ quote (Title (ps ! k)) @
                      '',\"Content\":'' @ quote (Content (ps ! k)) @
                      '',\"CreatedAt\":'' @ quote (CreatedAt (ps ! k)) @
                      '',\"Author\":'' @ quote (Author (ps ! k)) @
                      '',\"ViewCount\":'' @ FormatInt (sint (ViewCount (ps ! k) + 1)) @
                      '',\"LastViewed\":'' @ quote (dates w (calls w + k)) @ ''}'')
               [0..<length ps]) @ '']'') @ ''\<newline>''"
  by (cases s) (simp_all add: Encode_def Marshal_def view_all_def view_def encode_Post_def o_def)

lemma MarshalIndent_view_all:
  "MarshalIndent (map_option (view_all w) s) =
     (case s of
        None \<Rightarrow> ''null''
      | Some ps \<Rightarrow>
          if ps = [] then ''[]''
          else ''[\<newline>'' @ join '',\<newline>''
            (map (\<lambda>k. ''  {\<newline>    \"Title\": '' @ quote (Title (ps ! k)) @
                      '',\<newline>    \"Content\": '' @ quote (Content (ps ! k)) @
                      '',\<newline>    \"CreatedAt\": '' @ quote (CreatedAt (ps ! k)) @
                      '',\<newline>    \"Author\": '' @ quote (Author (ps ! k)) @
                      '',\<newline>    \"ViewCount\": '' @ FormatInt (sint (ViewCount (ps ! k) + 1)) @
                      '',\<newline>    \"LastViewed\": '' @ quote (dates w (calls w + k)) @
                      ''\<newline>  }'')
               [0..<length ps]) @ ''\<newline>]'')"
proof (cases s)
  case None
  then show ?thesis by (simp add: MarshalIndent_def)
next
  case (Some ps)
  show ?thesis
  proof (cases "ps = []")
    case True
    with Some show ?thesis by (simp add: MarshalIndent_def view_all_def)
  next
    case False
    then have "view_all w ps \<noteq> []" by (simp add: view_all_def)
    then obtain q qs where q: "view_all w ps = q # qs" by (cases "view_all w ps") auto
    have "MarshalIndent (Some (view_all w ps)) =
            ''[\<newline>'' @ join '',\<newline>'' (map indent_Post (view_all w ps)) @ ''\<newline>]''"
      unfolding q by (simp add: MarshalIndent_def)
    with Some False show ?thesis
      by (simp add: view_all_def view_def indent_Post_def o_def)
  qed
qed

text \<open>The indented encoding of a collection with one more record at its end.\<close>

lemma join_Cons: "join sep (x # xs) = (if xs = [] then x else x @ sep @ join sep xs)"
  by (cases xs) simp_all

lemma join_snoc: "join sep (xs @ [y]) = concat (map (\<lambda>x. x @ sep) xs) @ y"
  by (induction xs) (simp_all add: join_Cons)

lemma MarshalIndent_snoc:
  "MarshalIndent (Some (ps @ [p])) =
     ''[\<newline>'' @ concat (map (\<lambda>q. indent_Post q @ '',\<newline>'') ps) @ indent_Post p @ ''\<newline>]''"
proof -
  obtain q qs where q: "ps @ [p] = q # qs" by (cases "ps @ [p]") auto
  have "MarshalIndent (Some (ps @ [p])) =
          ''[\<newline>'' @ join '',\<newline>'' (map indent_Post (ps @ [p])) @ ''\<newline>]''"
    unfolding q by (simp add: MarshalIndent_def)
  also have "map indent_Post (ps @ [p]) = map indent_Post ps @ [indent_Post p]" by simp
  finally show ?thesis
    by (simp add: join_snoc o_def)
qed

lemma FormatInt_0: "FormatInt 0 = ''0''"
  by code_simp

text \<open>
  The compact encoding has no line break inside: the encoder escapes the line feed in a
  string, and no other part of the text has one.
\<close>

lemma set_join: "set (join sep xs) \<subseteq> set sep \<union> (\<Union>x\<in>set xs. set x)"
  by (induction xs) (auto simp: join_Cons)

lemma hex_digit_newline: "n < 16 \<Longrightarrow> hex_digit n \<noteq> CHR 0x0A"
proof -
  assume "n < 16"
  then have "hex_digit n \<in> set ''0123456789abcdef''"
    unfolding hex_digit_def by (intro nth_mem) simp
  then show ?thesis by auto
qed

lemma byte_less: "byte c < 256"
  by (simp add: byte_def)

lemma utf8_len_cases:
  assumes "\<not> byte c < 0x80"
  shows "utf8_len (c # cs) = 0
       \<or> (\<exists>b t. cs = b # t \<and> 0x80 \<le> byte b \<and> utf8_len (c # cs) = 2)
       \<or> (\<exists>b1 b2 t. cs = b1 # b2 # t \<and> 0x80 \<le> byte b1 \<and> 0x80 \<le> byte b2
             \<and> utf8_len (c # cs) = 3)
       \<or> (\<exists>b1 b2 b3 t. cs = b1 # b2 # b3 # t \<and> 0x80 \<le> byte b1 \<and> 0x80 \<le> byte b2
             \<and> 0x80 \<le> byte b3 \<and> utf8_len (c # cs) = 4)"
proof (cases cs)
  case Nil
  with assms show ?thesis by (simp add: utf8_len_def)
next
  case c1: (Cons b1 t1)
  show ?thesis
  proof (cases t1)
    case Nil
    with assms c1 show ?thesis by (simp add: utf8_len_def between_def)
  next
    case c2: (Cons b2 t2)
    show ?thesis
    proof (cases t2)
      case Nil
      with assms c1 c2 show ?thesis by (simp add: utf8_len_def between_def)
    next
      case c3: (Cons b3 t3)
      with assms c1 c2 show ?thesis by (simp add: utf8_len_def between_def)
    qed
  qed
qed

lemma byte_newline: "byte (CHR 0x0A) = 10"
  by (simp add: byte_def)

lemma utf8_take_newline:
  assumes "\<not> byte c < 0x80"
  shows "CHR 0x0A \<notin> set (take (utf8_len (c # cs)) (c # cs))"
proof -
  have c: "CHR 0x0A \<noteq> c" using assms by (auto simp: byte_newline)
  have n: "0x80 \<le> byte b \<Longrightarrow> CHR 0x0A \<noteq> b" for b by (auto simp: byte_newline)
  from utf8_len_cases [OF assms, of cs] show ?thesis
  proof (elim disjE exE conjE)
    assume "utf8_len (c # cs) = 0"
    then show ?thesis by simp
  next
    fix b t assume "cs = b # t" "0x80 \<le> byte b" "utf8_len (c # cs) = 2"
    with c n show ?thesis by (simp add: numeral_2_eq_2)
  next
    fix b1 b2 t
    assume "cs = b1 # b2 # t" "0x80 \<le> byte b1" "0x80 \<le> byte b2" "utf8_len (c # cs) = 3"
    with c n show ?thesis by (simp add: numeral_3_eq_3)
  next
    fix b1 b2 b3 t
    assume "cs = b1 # b2 # b3 # t" "0x80 \<le> byte b1" "0x80 \<le> byte b2" "0x80 \<le> byte b3"
      "utf8_len (c # cs) = 4"
    with c n show ?thesis by (simp add: eval_nat_numeral)
  qed
qed

lemma newline_appendString: "CHR 0x0A \<notin> set (appendString s)"
proof (induction s rule: appendString.induct)
  case 1
  show ?case by simp
next
  case (2 c cs)
  have h1: "hex_digit (byte c div 16) \<noteq> CHR 0x0A"
    using byte_less [of c] by (intro hex_digit_newline) simp
  have h2: "hex_digit (byte c mod 16) \<noteq> CHR 0x0A"
    by (intro hex_digit_newline) simp
  show ?case
  proof (cases "byte c < 0x80")
    case True
    with 2(1) h1 h2 show ?thesis by auto
  next
    case False
    note hi = this
    note u = utf8_take_newline [OF hi, of cs]
    show ?thesis
    proof (cases "utf8_len (c # cs) = 0")
      case True
      with hi 2(2) show ?thesis by simp
    next
      case False
      with hi 2(3-5) u show ?thesis
        by (simp del: take_Suc_Cons drop_Suc_Cons)
    qed
  qed
qed

lemma newline_quote: "CHR 0x0A \<notin> set (quote s)"
  by (simp add: quote_def newline_appendString)

lemma digit_newline: "k < 10 \<Longrightarrow> ''0123456789'' ! k \<noteq> CHR 0x0A"
proof -
  assume k: "k < 10"
  define d where "d = ''0123456789'' ! k"
  have "d \<in> set ''0123456789''"
    unfolding d_def using k by (intro nth_mem) simp
  then have "d \<noteq> CHR 0x0A" by auto
  then show ?thesis unfolding d_def .
qed

lemma newline_digits10: "CHR 0x0A \<notin> set (digits10 n)"
proof (induction n rule: digits10.induct)
  case (1 n)
  show ?case
  proof (cases "n < 10")
    case True
    define d where "d = ''0123456789'' ! nat n"
    have "d \<noteq> CHR 0x0A"
      unfolding d_def using True by (intro digit_newline) simp
    moreover have "digits10 n = [d]"
      unfolding d_def using True by (subst digits10.simps) (simp only: if_True)
    ultimately show ?thesis by (simp del: digits10.simps)
  next
    case False
    define d where "d = ''0123456789'' ! nat (n mod 10)"
    have "d \<noteq> CHR 0x0A"
      unfolding d_def by (intro digit_newline) simp
    moreover have "digits10 n = digits10 (n div 10) @ [d]"
      unfolding d_def using False by (subst digits10.simps) (simp only: if_False)
    moreover note 1 [OF False]
    ultimately show ?thesis by (simp del: digits10.simps)
  qed
qed

lemma newline_FormatInt: "CHR 0x0A \<notin> set (FormatInt i)"
  by (simp add: FormatInt_def newline_digits10 del: digits10.simps)

lemma one_line_Post: "CHR 0x0A \<notin> set (encode_Post p)"
  by (simp add: encode_Post_def newline_quote newline_FormatInt del: digits10.simps)

lemma one_line_join:
  assumes "\<And>x. x \<in> set xs \<Longrightarrow> c \<notin> set x" and "c \<notin> set sep"
  shows "c \<notin> set (join sep xs)"
  using set_join [of sep xs] assms by blast

lemma one_line_Marshal: "CHR 0x0A \<notin> set (Marshal s)"
proof (cases s)
  case None
  then show ?thesis by (simp add: Marshal_def)
next
  case (Some ps)
  have "CHR 0x0A \<notin> set (join '','' (map encode_Post ps))"
    by (rule one_line_join) (auto simp: one_line_Post)
  with Some show ?thesis by (simp add: Marshal_def)
qed

lemma one_line_Encode:
  "CHR 0x0A \<notin> set (butlast (Encode s)) \<and> last (Encode s) = CHR 0x0A"
  by (simp add: Encode_def one_line_Marshal butlast_append)

subsection \<open>The store and the handlers, step by step\<close>

lemma loadPost_cases:
  "loadPost s rw w =
     (case fst (Unmarshal_posts (fst (os_ReadFile w)) s) of
        NilPointer \<Rightarrow> Panicked
      | ToCallersSlice \<Rightarrow>
          Returned (fst (snd (Unmarshal_posts (fst (os_ReadFile w)) s)),
            (if snd (os_ReadFile w) then http_Error ''Error reading request body'' 500 rw else rw),
            w\<lparr>stdout := stdout w @
                 concat (map loading_line (elems (fst (snd (Unmarshal_posts (fst (os_ReadFile w)) s)))))\<rparr>))"
  by (simp add: loadPost_def Let_def split_beta)

lemma loadPost_world:
  "loadPost s rw w = Returned (s1, rw1, w1) \<Longrightarrow>
   w1 = w\<lparr>stdout := stdout w @ concat (map loading_line (elems s1))\<rparr>"
  by (auto simp: loadPost_cases split: pointer.splits)

lemma os_ReadFile_tick: "os_ReadFile (tick w) = os_ReadFile w"
  by (simp add: os_ReadFile_def tick_def split: option.splits)

lemma loadPost_tick:
  "loadPost s rw w = Returned (s1, rw1, w1) \<Longrightarrow> loadPost s rw (tick w) = Returned (s1, rw1, tick w1)"
  unfolding loadPost_cases os_ReadFile_tick
  by (auto simp: tick_def split: pointer.splits)

lemma view_all_stdout: "view_all (w\<lparr>stdout := x\<rparr>) ps = view_all w ps"
  by (simp add: view_all_def)

lemma len_view_all: "len (map_option (view_all w) s) = len s"
  by (cases s) (simp_all add: len_def view_all_def)

lemma index_Returned:
  assumes "loadPost None rw w = Returned (s, rw1, w1)"
  shows "index rw r w =
           Done (snd (savePosts (map_option (view_all w) s) (w1\<lparr>calls := calls w + len s\<rparr>)))
             (Write (Encode (map_option (view_all w) s))
                (Header_Set ''Content-Type'' ''application/json'' rw1))"
proof -
  note w1 = loadPost_world [OF assms]
  show ?thesis
  proof (cases s)
    case None
    with assms w1 show ?thesis
      by (simp add: index_def Let_def split_beta len_def)
  next
    case (Some ps)
    have "view_all w1 ps = view_all w ps" by (simp add: w1 view_all_stdout)
    moreover have "calls w1 = calls w" by (simp add: w1)
    ultimately show ?thesis using assms Some
      by (simp add: index_def Let_def split_beta len_def index_loop_view_all)
  qed
qed

lemma index_Panicked: "loadPost None rw w = Panicked \<Longrightarrow> index rw r w = Panic w"
  by (simp add: index_def)

lemma Unmarshal_posts_example:
  "Unmarshal_posts ''[{\"Title\":\"a\",\"ViewCount\":7}]'' None =
     (ToCallersSlice, Some [zero_Post\<lparr>Title := ''a'', ViewCount := 7\<rparr>], False)"
  by code_simp

lemma Unmarshal_posts_null: "Unmarshal_posts ''null'' s = (NilPointer, s, False)"
proof -
  have "parse ''null'' = Some JNull" by code_simp
  then show ?thesis by (simp add: Unmarshal_posts_def)
qed

lemma resp_body_Write: "resp_body (Write x rw) = resp_body rw @ x"
  by (simp add: Write_def WriteHeader_def Let_def)

lemma status_Write: "status (Write x rw) = status rw"
  by (simp add: Write_def WriteHeader_def Let_def status_def)

lemma status_Header_Set: "status (Header_Set k v rw) = status rw"
  by (simp add: Header_Set_def status_def)

lemma resp_body_Header_Set: "resp_body (Header_Set k v rw) = resp_body rw"
  by (simp add: Header_Set_def)

lemma status_http_Error: "status (http_Error msg code new_response) = code"
  by (simp add: http_Error_def Write_def WriteHeader_def Header_Set_def Header_Del_def
        new_response_def status_def Let_def)

lemma resp_body_http_Error: "resp_body (http_Error msg code rw) = resp_body rw @ msg @ ''\<newline>''"
  by (simp add: http_Error_def Write_def WriteHeader_def Header_Set_def Header_Del_def Let_def)

lemma status_new_response: "status new_response = 200"
  by (simp add: status_def new_response_def)

lemma resp_body_new_response: "resp_body new_response = []"
  by (simp add: new_response_def)

lemma savePosts_world:
  "snd (savePosts s w) =
     (if can_write w then w\<lparr>disk := Some (written w (MarshalIndent s))\<rparr> else w)"
  by (simp add: savePosts_def os_WriteFile_def)

lemma written_whole: "room w = None \<Longrightarrow> written w d = d"
  by (simp add: written_def)

lemma cleanPath_index: "cleanPath ''/index'' = ''/index''"
  by code_simp

lemma cleanPath_create: "cleanPath ''/create'' = ''/create''"
  by code_simp

lemma cleanPath_posts_index: "cleanPath ''/posts/index'' = ''/posts/index''"
  by code_simp

lemma loadPost_read_ok:
  assumes "loadPost s rw w = Returned (s1, rw1, w1)" and "disk w \<noteq> None" and "can_read w"
  shows "rw1 = rw"
  using assms by (auto simp: loadPost_cases os_ReadFile_def split: pointer.splits)

lemma nth_view_all:
  "k < length ps \<Longrightarrow> view_all w ps ! k = view (dates w (calls w + k)) (ps ! k)"
  by (simp add: view_all_def)

lemma parse_empty: "parse [] = None"
  by (simp add: parse_def)

lemma Unmarshal_posts_syntax_error:
  "parse d = None \<Longrightarrow> Unmarshal_posts d s = (ToCallersSlice, s, True)"
  by (simp add: Unmarshal_posts_def)

lemma loadPost_Panicked_tick:
  "loadPost s rw w = Panicked \<Longrightarrow> loadPost s rw (tick w) = Panicked"
  unfolding loadPost_cases os_ReadFile_tick
  by (auto split: pointer.splits)

lemma loadPost_read_fails:
  assumes "disk w = None \<or> \<not> can_read w"
  shows "loadPost None rw w = Returned (None, http_Error ''Error reading request body'' 500 rw, w)"
proof -
  have "os_ReadFile w = ([], True)"
    using assms by (auto simp: os_ReadFile_def split: option.splits)
  then show ?thesis
    by (simp add: loadPost_cases Unmarshal_posts_syntax_error parse_empty elems_def)
qed

lemma create_Returned:
  assumes "Method r = ''POST''" and "Body r = Some b"
    and "loadPost None rw w = Returned (s, rw1, w1)"
  shows "create rw r w =
           Done (snd (savePosts
                   (Some (elems s @
                      [(fst (Unmarshal_Post b zero_Post))
                         \<lparr>CreatedAt := dates w (calls w),
                          LastViewed := dates w (Suc (calls w)),
                          ViewCount := 0\<rparr>]))
                   (tick (tick w1))))
             (Write ''Post successfully created'' rw1)"
proof -
  have "loadPost None rw (tick (tick w)) = Returned (s, rw1, tick (tick w1))"
    using assms(3) by (intro loadPost_tick)
  then show ?thesis
    using assms(1,2)
    by (simp add: create_def Let_def split_beta setCreatedAt_def setLastViewed_def today_def
          append_slice_def)
       (simp add: tick_def)
qed

lemma create_Panicked:
  assumes "Method r = ''POST''" and "Body r = Some b" and "loadPost None rw w = Panicked"
  shows "create rw r w = Panic (tick (tick w))"
proof -
  have "loadPost None rw (tick (tick w)) = Panicked"
    using assms(3) by (intro loadPost_Panicked_tick)
  then show ?thesis
    using assms(1,2)
    by (simp add: create_def Let_def split_beta setCreatedAt_def setLastViewed_def)
qed

lemma Unmarshal_posts_error_pointer:
  "snd (snd (Unmarshal_posts d s)) \<Longrightarrow> fst (Unmarshal_posts d s) = ToCallersSlice"
  by (auto simp: Unmarshal_posts_def split_beta Let_def split: option.splits json.splits)

lemma Unmarshal_Post_syntax_error: "parse b = None \<Longrightarrow> Unmarshal_Post b p = (p, True)"
  by (simp add: Unmarshal_Post_def)

lemma resp_body_first_Write:
  "resp_body (Write x (Header_Set k v new_response)) = x"
  by (simp add: resp_body_Write resp_body_Header_Set resp_body_new_response)

text \<open>
  A file that can be read: \<open>loadPost\<close> panics exactly when it holds the JSON literal
  \<open>null\<close>, and otherwise hands over what the decoder made of it. Then both handlers
  run to their end, and what they leave behind can be written out in full.
\<close>

lemma Unmarshal_posts_pointer:
  "fst (Unmarshal_posts d s) = (if parse d = Some JNull then NilPointer else ToCallersSlice)"
  by (simp add: Unmarshal_posts_def split_beta Let_def split: option.splits json.splits)

lemma loadPost_readable:
  assumes "disk w = Some d" and "can_read w" and "parse d \<noteq> Some JNull"
  shows "loadPost None rw w =
           Returned (fst (snd (Unmarshal_posts d None)), rw,
             w\<lparr>stdout := stdout w @
                  concat (map loading_line (elems (fst (snd (Unmarshal_posts d None)))))\<rparr>)"
proof -
  have "os_ReadFile w = (d, False)"
    using assms(1,2) by (simp add: os_ReadFile_def)
  then show ?thesis
    using assms(3) by (simp add: loadPost_cases Unmarshal_posts_pointer)
qed

lemma loadPost_null_file:
  assumes "disk w = Some d" and "can_read w" and "parse d = Some JNull"
  shows "loadPost None rw w = Panicked"
proof -
  have "os_ReadFile w = (d, False)"
    using assms(1,2) by (simp add: os_ReadFile_def)
  then show ?thesis
    using assms(3) by (simp add: loadPost_cases Unmarshal_posts_pointer)
qed

lemma index_readable:
  assumes "disk w = Some d" and "can_read w" and "parse d \<noteq> Some JNull"
  shows "index new_response r w =
           (let s = fst (snd (Unmarshal_posts d None));
                body = (case s of
                         None \<Rightarrow> ''null''
                       | Some ps \<Rightarrow>
                           ''['' @ join '',''
                             (map (\<lambda>k. ''{\"Title\":'' @ quote (Title (ps ! k)) @
                                       '',\"Content\":'' @ quote (Content (ps ! k)) @
                                       '',\"CreatedAt\":'' @ quote (CreatedAt (ps ! k)) @
                                       '',\"Author\":'' @ quote (Author (ps ! k)) @
                                       '',\"ViewCount\":'' @ FormatInt (sint (ViewCount (ps ! k) + 1)) @
                                       '',\"LastViewed\":'' @ quote (dates w (calls w + k)) @ ''}'')
                                [0..<length ps]) @ '']'') @ ''\<newline>'';
                text = (case s of
                         None \<Rightarrow> ''null''
                       | Some ps \<Rightarrow>
                           if ps = [] then ''[]''
                           else ''[\<newline>'' @ join '',\<newline>''
                             (map (\<lambda>k. ''  {\<newline>    \"Title\": '' @ quote (Title (ps ! k)) @
                                       '',\<newline>    \"Content\": '' @ quote (Content (ps ! k)) @
                                       '',\<newline>    \"CreatedAt\": '' @ quote (CreatedAt (ps ! k)) @
                                       '',\<newline>    \"Author\": '' @ quote (Author (ps ! k)) @
                                       '',\<newline>    \"ViewCount\": '' @ FormatInt (sint (ViewCount (ps ! k) + 1)) @
                                       '',\<newline>    \"LastViewed\": '' @ quote (dates w (calls w + k)) @
                                       ''\<newline>  }'')
                                [0..<length ps]) @ ''\<newline>]'')
            in Done (w\<lparr>stdout := stdout w @ concat (map loading_line (elems s)),
                       calls := calls w + len s,
                       disk := if can_write w
                               then Some (case room w of None \<Rightarrow> text | Some n \<Rightarrow> take n text)
                               else disk w\<rparr>)
                 \<lparr>hdr = [(''Content-Type'', ''application/json'')],
                   sent = Some (200, [(''Content-Type'', ''application/json'')]),
                   resp_body = body\<rparr>)"
proof -
  note l = loadPost_readable [OF assms, of new_response]
  show ?thesis
    unfolding index_Returned [OF l, of r] Let_def Encode_view_all [symmetric]
      MarshalIndent_view_all [symmetric]
    by (simp add: savePosts_world written_def Write_def WriteHeader_def Header_Set_def
          new_response_def Let_def split: option.splits)
qed

lemma create_readable:
  assumes "Method r = ''POST''" and "Body r = Some b"
    and "disk w = Some d" and "can_read w" and "parse d \<noteq> Some JNull"
  shows "create new_response r w =
           (let s = fst (snd (Unmarshal_posts d None));
                c = fst (Unmarshal_Post b zero_Post);
                text =
                  ''[\<newline>'' @
                  concat
                    (map (\<lambda>p. ''  {\<newline>    \"Title\": '' @ quote (Title p) @
                              '',\<newline>    \"Content\": '' @ quote (Content p) @
                              '',\<newline>    \"CreatedAt\": '' @ quote (CreatedAt p) @
                              '',\<newline>    \"Author\": '' @ quote (Author p) @
                              '',\<newline>    \"ViewCount\": '' @ FormatInt (sint (ViewCount p)) @
                              '',\<newline>    \"LastViewed\": '' @ quote (LastViewed p) @
                              ''\<newline>  },\<newline>'')
                       (elems s)) @
                  ''  {\<newline>    \"Title\": '' @ quote (Title c) @
                  '',\<newline>    \"Content\": '' @ quote (Content c) @
                  '',\<newline>    \"CreatedAt\": '' @ quote (dates w (calls w)) @
                  '',\<newline>    \"Author\": '' @ quote (Author c) @
                  '',\<newline>    \"ViewCount\": 0'' @
                  '',\<newline>    \"LastViewed\": '' @ quote (dates w (Suc (calls w))) @
                  ''\<newline>  }\<newline>]''
            in Done (w\<lparr>stdout := stdout w @ concat (map loading_line (elems s)),
                       calls := calls w + 2,
                       disk := if can_write w
                               then Some (case room w of None \<Rightarrow> text | Some n \<Rightarrow> take n text)
                               else disk w\<rparr>)
                 \<lparr>hdr = [], sent = Some (200, []),
                   resp_body = ''Post successfully created''\<rparr>)"
proof -
  note l = loadPost_readable [OF assms(3-5), of new_response]
  show ?thesis
    unfolding create_Returned [OF assms(1,2) l] Let_def
    by (simp add: savePosts_world written_def MarshalIndent_snoc indent_Post_def FormatInt_0
          Write_def WriteHeader_def new_response_def Let_def tick_def split: option.splits)
qed

subsection \<open>The example, evaluated\<close>

lemma example_world_fields:
  "disk example_world = Some ''[{\"Title\":\"a\",\"ViewCount\":7}]''"
  "can_read example_world" "can_write example_world"
  "dates example_world k = ''2025-05-01''" "calls example_world = 0"
  "stdout example_world = []"
  by (simp_all add: example_world_def)

lemma loadPost_example:
  "loadPost None new_response example_world =
     Returned (Some [example_post], new_response, example_world_loaded)"
  by (simp add: loadPost_cases os_ReadFile_def example_world_fields Unmarshal_posts_example
        elems_def example_post_def example_world_loaded_def)

lemma view_all_example: "view_all example_world [example_post] = [example_post_viewed]"
  by (simp add: view_all_def view_def example_world_fields example_post_def
        example_post_viewed_def zero_Post_def)

lemma example_world_loaded_fields:
  "disk example_world_loaded = disk example_world"
  "can_write example_world_loaded"
  by (simp_all add: example_world_loaded_def example_world_fields)

lemma Unmarshal_Post_example:
  "Unmarshal_Post example_body zero_Post =
     (zero_Post\<lparr>Title := ''x'', CreatedAt := ''1999-01-01'', ViewCount := 99\<rparr>, False)"
  by code_simp

lemma stamp_example:
  "(fst (Unmarshal_Post example_body zero_Post))
     \<lparr>CreatedAt := ''2025-05-01'', LastViewed := ''2025-05-01'', ViewCount := 0\<rparr> =
   example_new_post"
  unfolding Unmarshal_Post_example by (simp add: zero_Post_def example_new_post_def)

lemma savePosts_None_missing: "snd (savePosts None missing_world) = null_world"
  by (simp add: savePosts_def os_WriteFile_def written_def MarshalIndent_def missing_world_def
        null_world_def example_world_def)

lemma missing_world_fields:
  "disk missing_world = None" "can_write missing_world"
  by (simp_all add: missing_world_def example_world_def)

lemma null_world_fields:
  "disk null_world = Some ''null''" "can_read null_world"
  by (simp_all add: null_world_def example_world_def)

lemma loadPost_null: "loadPost s rw null_world = Panicked"
  by (simp add: loadPost_cases os_ReadFile_def null_world_fields Unmarshal_posts_null)

lemma Unmarshal_posts_mistyped:
  "Unmarshal_posts mistyped_file None = (ToCallersSlice, Some [zero_Post\<lparr>Title := ''a''\<rparr>], True)"
  by code_simp

lemma parse_garbled: "parse ''[{\"Title\":'' = None"
  by code_simp

lemma mistyped_world_fields:
  "disk mistyped_world = Some mistyped_file" "can_read mistyped_world"
  "stdout mistyped_world = []"
  by (simp_all add: mistyped_world_def example_world_def)

lemma garbled_world_fields:
  "disk garbled_world = Some ''[{\"Title\":''" "can_read garbled_world"
  "can_write garbled_world" "stdout garbled_world = []" "calls garbled_world = 0"
  by (simp_all add: garbled_world_def example_world_def)

lemma garbled_world_same:
  "garbled_world\<lparr>stdout := []\<rparr> = garbled_world"
  "garbled_world\<lparr>calls := 0\<rparr> = garbled_world"
  by (simp_all add: garbled_world_def example_world_def)

lemma Unmarshal_Post_mistyped:
  "Unmarshal_Post mistyped_body zero_Post = (zero_Post\<lparr>Title := ''x''\<rparr>, True)"
  by code_simp

lemma parse_nope: "parse ''{nope'' = None"
  by code_simp

lemma Encode_example:
  "Encode (Some [example_post_viewed]) =
     ''[{\"Title\":\"a\",\"Content\":\"\",\"CreatedAt\":\"\",\"Author\":\"\",\"ViewCount\":8,\"LastViewed\":\"2025-05-01\"}]\<newline>''"
  by code_simp

lemma MarshalIndent_example:
  "MarshalIndent (Some [example_post_viewed]) =
     ''[\<newline>  {\<newline>    \"Title\": \"a\",\<newline>    \"Content\": \"\",\<newline>    \"CreatedAt\": \"\",\<newline>    \"Author\": \"\",\<newline>    \"ViewCount\": 8,\<newline>    \"LastViewed\": \"2025-05-01\"\<newline>  }\<newline>]''"
  by code_simp

lemma index_example:
  "index new_response r example_world =
     Done (snd (savePosts (Some [example_post_viewed]) (example_world_loaded\<lparr>calls := 1\<rparr>)))
       (Write (Encode (Some [example_post_viewed]))
          (Header_Set ''Content-Type'' ''application/json'' new_response))"
  using index_Returned [OF loadPost_example, of r]
  by (simp add: view_all_example len_def example_world_fields)

lemma two_world_fields:
  "disk two_world = Some two_file" "can_read two_world" "can_write two_world"
  "room two_world = None" "calls two_world = 0" "stdout two_world = []"
  "dates two_world 0 = ''2025-05-01''" "dates two_world (Suc k) = ''2025-05-02''"
  by (simp_all add: two_world_def)

lemma two_file_saved: "MarshalIndent (Some two_posts) = two_file"
  by code_simp

lemma Unmarshal_two_file: "Unmarshal_posts two_file None = (ToCallersSlice, Some two_posts, False)"
  by code_simp

lemma parse_two_file: "parse two_file \<noteq> Some JNull"
  using Unmarshal_posts_pointer [of two_file None] by (auto simp: Unmarshal_two_file)

lemma two_body:
  "Encode (map_option (view_all two_world) (Some two_posts)) =
          ''[{\"Title\":\"a'' @ [CHR 0x5C] @ ''u003cb\",\"Content\":\"first\",\"CreatedAt\":\"2025-04-01\",\"Author\":\"Ann\",\"ViewCount\":8,\"LastViewed\":\"2025-05-01\"},'' @
          ''{\"Title\":\"c\",\"Content\":\"second\",\"CreatedAt\":\"2025-04-03\",\"Author\":\"Bob\",\"ViewCount\":0,\"LastViewed\":\"2025-05-02\"}]\<newline>''"
  by code_simp

lemma two_text:
  "MarshalIndent (map_option (view_all two_world) (Some two_posts)) =
          ''[\<newline>'' @
          ''  {\<newline>'' @
          ''    \"Title\": \"a'' @ [CHR 0x5C] @ ''u003cb\",\<newline>'' @
          ''    \"Content\": \"first\",\<newline>'' @
          ''    \"CreatedAt\": \"2025-04-01\",\<newline>'' @
          ''    \"Author\": \"Ann\",\<newline>'' @
          ''    \"ViewCount\": 8,\<newline>'' @
          ''    \"LastViewed\": \"2025-05-01\"\<newline>'' @
          ''  },\<newline>'' @
          ''  {\<newline>'' @
          ''    \"Title\": \"c\",\<newline>'' @
          ''    \"Content\": \"second\",\<newline>'' @
          ''    \"CreatedAt\": \"2025-04-03\",\<newline>'' @
          ''    \"Author\": \"Bob\",\<newline>'' @
          ''    \"ViewCount\": 0,\<newline>'' @
          ''    \"LastViewed\": \"2025-05-02\"\<newline>'' @
          ''  }\<newline>'' @
          '']''"
  by code_simp

lemma two_loading:
  "concat (map loading_line (elems (Some two_posts))) =
          ''Loading Post '' @ [CHR 0x27] @ ''a<b'' @ [CHR 0x27] @ '' in memory\<newline>'' @
          ''Loading Post '' @ [CHR 0x27] @ ''c'' @ [CHR 0x27] @ '' in memory\<newline>''"
  by code_simp

section \<open>The claims\<close>

text \<open>
  C5. A Create request whose method is not POST is answered with 405 Method Not
  Allowed, and nothing else happens: the handler returns the world it was given (the
  file, the clock and standard output untouched), so there is no load, no mutation
  and no save. The mux routes every request for \<open>/create\<close> to this handler.
\<close>

theorem create_wrong_method:
  assumes "Method r \<noteq> ''POST''"
  shows "create new_response r w =
           Done w (http_Error ''Please submit a post request'' 405 new_response)
         \<and> status (http_Error ''Please submit a post request'' 405 new_response) = 405
         \<and> (Path r = ''/create'' \<longrightarrow> serve r w = create new_response r w)"
  using assms
  by (simp add: create_def serve_def cleanPath_create status_def http_Error_def Write_def
        WriteHeader_def Header_Set_def Header_Del_def new_response_def Let_def)

theorem create_wrong_method_witness:
  "Method \<lparr>Method = ''GET'', Path = ''/create'', Body = Some ''{}''\<rparr> \<noteq> ''POST''
   \<and> serve \<lparr>Method = ''GET'', Path = ''/create'', Body = Some ''{}''\<rparr> example_world =
       Done example_world (http_Error ''Please submit a post request'' 405 new_response)
   \<and> status (http_Error ''Please submit a post request'' 405 new_response) = 405"
  using create_wrong_method [of "\<lparr>Method = ''GET'', Path = ''/create'', Body = Some ''{}''\<rparr>"
      example_world]
  by simp

text \<open>
  C9. Enumerate keeps the number of records and their order, and in every record the
  title, the content, the creation date and the author; a nil collection stays nil.
\<close>

theorem index_frame:
  assumes "loadPost None new_response w = Returned (s, rw1, w1)"
  shows "let s' = map_option (view_all w) s;
             w' = snd (savePosts s' (w1\<lparr>calls := calls w + len s\<rparr>));
             rw' = Write (Encode s') (Header_Set ''Content-Type'' ''application/json'' rw1)
         in index new_response r w = Done w' rw'
            \<and> (s' = None) = (s = None)
            \<and> len s' = len s
            \<and> (\<forall>k<len s. Title (elems s' ! k) = Title (elems s ! k)
                         \<and> Content (elems s' ! k) = Content (elems s ! k)
                         \<and> CreatedAt (elems s' ! k) = CreatedAt (elems s ! k)
                         \<and> Author (elems s' ! k) = Author (elems s ! k))"
proof -
  have records: "\<forall>k<len s. Title (elems (map_option (view_all w) s) ! k) = Title (elems s ! k)
                  \<and> Content (elems (map_option (view_all w) s) ! k) = Content (elems s ! k)
                  \<and> CreatedAt (elems (map_option (view_all w) s) ! k) = CreatedAt (elems s ! k)
                  \<and> Author (elems (map_option (view_all w) s) ! k) = Author (elems s ! k)"
    by (cases s) (simp_all add: len_def elems_def nth_view_all view_def)
  show ?thesis
    using index_Returned [OF assms, of r] records
    by (simp add: Let_def len_view_all)
qed

theorem index_frame_witness:
  "loadPost None new_response example_world =
     Returned (Some [example_post], new_response, example_world_loaded)
   \<and> index new_response \<lparr>Method = ''GET'', Path = ''/index'', Body = Some []\<rparr> example_world =
       Done (snd (savePosts (Some [example_post_viewed]) (example_world_loaded\<lparr>calls := 1\<rparr>)))
         (Write (Encode (Some [example_post_viewed]))
            (Header_Set ''Content-Type'' ''application/json'' new_response))
   \<and> len (Some [example_post_viewed]) = len (Some [example_post])
   \<and> Title example_post_viewed = Title example_post
   \<and> Content example_post_viewed = Content example_post
   \<and> CreatedAt example_post_viewed = CreatedAt example_post
   \<and> Author example_post_viewed = Author example_post"
proof -
  from index_frame [OF loadPost_example,
      of "\<lparr>Method = ''GET'', Path = ''/index'', Body = Some []\<rparr>"]
  show ?thesis
    by (simp add: Let_def loadPost_example view_all_example len_def elems_def
          example_world_fields)
qed

text \<open>
  C4. The round trip fails for the nil collection. Enumerate on a missing posts.json
  saves the nil collection, which \<open>savePosts\<close> writes as \<open>null\<close>. Loading that file
  panics: \<open>json.Unmarshal(data, &posts)\<close> is given the address of the parameter
  \<open>posts\<close>, itself a pointer, and for the JSON literal \<open>null\<close> sets that pointer to
  nil; \<open>range *posts\<close> then dereferences nil. So nothing is loaded and nothing is
  saved again, and every later Enumerate and Create panics likewise.
\<close>

theorem null_file_panics:
  "index new_response \<lparr>Method = ''GET'', Path = ''/index'', Body = Some []\<rparr> missing_world =
     Done null_world
       (Write (Encode None) (Header_Set ''Content-Type'' ''application/json''
          (http_Error ''Error reading request body'' 500 new_response)))
   \<and> disk null_world = Some (MarshalIndent None)
   \<and> loadPost None new_response null_world = Panicked
   \<and> index new_response \<lparr>Method = ''GET'', Path = ''/index'', Body = Some []\<rparr> null_world =
       Panic null_world
   \<and> create new_response \<lparr>Method = ''POST'', Path = ''/create'', Body = Some example_body\<rparr>
       null_world = Panic (tick (tick null_world))"
proof -
  have "disk missing_world = None \<or> \<not> can_read missing_world"
    by (simp add: missing_world_fields)
  from loadPost_read_fails [OF this, of new_response]
  have "index new_response \<lparr>Method = ''GET'', Path = ''/index'', Body = Some []\<rparr> missing_world =
     Done null_world
       (Write (Encode None) (Header_Set ''Content-Type'' ''application/json''
          (http_Error ''Error reading request body'' 500 new_response)))"
    using index_Returned [of new_response missing_world None _ missing_world]
    by (simp add: len_def savePosts_None_missing)
  moreover have "disk null_world = Some (MarshalIndent None)"
    by (simp add: null_world_fields MarshalIndent_def)
  moreover have "create new_response
       \<lparr>Method = ''POST'', Path = ''/create'', Body = Some example_body\<rparr> null_world =
       Panic (tick (tick null_world))"
    by (rule create_Panicked [OF _ _ loadPost_null]) simp_all
  ultimately show ?thesis
    by (simp add: loadPost_null index_Panicked)
qed

text \<open>
  C6, as stated, fails: a file can make \<open>json.Unmarshal\<close> return an error and still
  leave records in the collection. For a file whose one record has a string as view
  count, the error is returned (and dropped), and the operation goes on with one
  record, not with an empty collection.
\<close>

theorem mistyped_file_not_empty:
  "snd (snd (Unmarshal_posts mistyped_file None))
   \<and> loadPost None new_response mistyped_world =
       Returned (Some [zero_Post\<lparr>Title := ''a''\<rparr>], new_response,
         mistyped_world\<lparr>stdout := loading_line (zero_Post\<lparr>Title := ''a''\<rparr>)\<rparr>)
   \<and> len (Some [zero_Post\<lparr>Title := ''a''\<rparr>]) = 1"
  by (simp add: loadPost_cases os_ReadFile_def mistyped_world_fields Unmarshal_posts_mistyped
        elems_def len_def)

text \<open>
  C6, amended. Whenever posts.json can be read and \<open>json.Unmarshal\<close> returns an error
  on its content, \<open>loadPost\<close> returns (no panic), writes nothing to the response, and
  Enumerate runs to its end with what was decoded. When the content is not JSON at
  all, that is the nil collection; when it is JSON of the wrong shape, it is whatever
  the decoder could fill in.
\<close>

theorem malformed_file_swallowed:
  assumes "disk w = Some d" and "can_read w" and "snd (snd (Unmarshal_posts d None))"
  shows "let s = fst (snd (Unmarshal_posts d None));
             w1 = w\<lparr>stdout := stdout w @ concat (map loading_line (elems s))\<rparr>
         in loadPost None rw w = Returned (s, rw, w1)
            \<and> index rw r w =
                Done (snd (savePosts (map_option (view_all w) s) (w1\<lparr>calls := calls w + len s\<rparr>)))
                  (Write (Encode (map_option (view_all w) s))
                     (Header_Set ''Content-Type'' ''application/json'' rw))
            \<and> (parse d = None \<longrightarrow> s = None)"
proof -
  have r: "os_ReadFile w = (d, False)"
    using assms(1,2) by (simp add: os_ReadFile_def)
  have p: "fst (Unmarshal_posts d None) = ToCallersSlice"
    using assms(3) by (rule Unmarshal_posts_error_pointer)
  have l: "loadPost None rw w =
           Returned (fst (snd (Unmarshal_posts d None)), rw,
             w\<lparr>stdout := stdout w @
                  concat (map loading_line (elems (fst (snd (Unmarshal_posts d None)))))\<rparr>)"
    by (simp add: loadPost_cases r p)
  have n: "parse d = None \<longrightarrow> fst (snd (Unmarshal_posts d None)) = None"
    by (simp add: Unmarshal_posts_syntax_error)
  show ?thesis
    using l index_Returned [OF l, of r] n by (simp add: Let_def)
qed

theorem malformed_file_swallowed_witness:
  "disk garbled_world = Some ''[{\"Title\":''
   \<and> parse ''[{\"Title\":'' = None
   \<and> loadPost None new_response garbled_world = Returned (None, new_response, garbled_world)
   \<and> index new_response \<lparr>Method = ''GET'', Path = ''/index'', Body = Some []\<rparr> garbled_world =
       Done (snd (savePosts None garbled_world))
         (Write (Encode None) (Header_Set ''Content-Type'' ''application/json'' new_response))"
proof -
  have u: "Unmarshal_posts ''[{\"Title\":'' None = (ToCallersSlice, None, True)"
    by (simp add: Unmarshal_posts_syntax_error parse_garbled)
  from malformed_file_swallowed [of garbled_world "''[{\"Title\":''" new_response
      "\<lparr>Method = ''GET'', Path = ''/index'', Body = Some []\<rparr>"]
  show ?thesis
    by (simp add: Let_def garbled_world_fields u parse_garbled elems_def len_def
          garbled_world_same)
qed

text \<open>
  C7, as stated, fails: a body can make \<open>json.Unmarshal\<close> return an error and still
  leave members in the candidate. For a body with a title and a string as view count,
  the error is returned (and dropped) and the record that is saved carries the title.
\<close>

theorem mistyped_body_not_zero:
  "snd (Unmarshal_Post mistyped_body zero_Post)
   \<and> fst (Unmarshal_Post mistyped_body zero_Post) = zero_Post\<lparr>Title := ''x''\<rparr>
   \<and> fst (Unmarshal_Post mistyped_body zero_Post) \<noteq> zero_Post
   \<and> create new_response \<lparr>Method = ''POST'', Path = ''/create'', Body = Some mistyped_body\<rparr>
       example_world =
       Done (snd (savePosts
               (Some [example_post,
                  zero_Post\<lparr>Title := ''x'', CreatedAt := ''2025-05-01'',
                             LastViewed := ''2025-05-01'', ViewCount := 0\<rparr>])
               (tick (tick example_world_loaded))))
         (Write ''Post successfully created'' new_response)"
proof -
  have "create new_response \<lparr>Method = ''POST'', Path = ''/create'', Body = Some mistyped_body\<rparr>
       example_world =
       Done (snd (savePosts
               (Some [example_post,
                  zero_Post\<lparr>Title := ''x'', CreatedAt := ''2025-05-01'',
                             LastViewed := ''2025-05-01'', ViewCount := 0\<rparr>])
               (tick (tick example_world_loaded))))
         (Write ''Post successfully created'' new_response)"
    using create_Returned [OF _ _ loadPost_example,
        of "\<lparr>Method = ''POST'', Path = ''/create'', Body = Some mistyped_body\<rparr>" mistyped_body]
    by (simp add: Unmarshal_Post_mistyped elems_def example_world_fields)
  moreover have "zero_Post\<lparr>Title := ''x''\<rparr> \<noteq> zero_Post"
    by (simp add: zero_Post_def)
  ultimately show ?thesis
    by (simp add: Unmarshal_Post_mistyped)
qed

text \<open>
  C8, as stated, fails twice. A request for \<open>/posts/index\<close> is answered by the mux
  with 404, since \<open>main\<close> registers the handler under \<open>/index\<close>. And the body that
  the handler writes is the compact encoding followed by a newline, not the indented
  one: the indentation of two spaces is what \<open>savePosts\<close> writes to the file.
\<close>

theorem enumerate_response_not_indented:
  "serve \<lparr>Method = ''GET'', Path = ''/posts/index'', Body = Some []\<rparr> example_world =
     Done example_world (http_Error ''404 page not found'' 404 new_response)
   \<and> serve \<lparr>Method = ''GET'', Path = ''/index'', Body = Some []\<rparr> example_world =
       Done (snd (savePosts (Some [example_post_viewed]) (example_world_loaded\<lparr>calls := 1\<rparr>)))
         (Write (Encode (Some [example_post_viewed]))
            (Header_Set ''Content-Type'' ''application/json'' new_response))
   \<and> resp_body (Write (Encode (Some [example_post_viewed]))
            (Header_Set ''Content-Type'' ''application/json'' new_response)) =
       ''[{\"Title\":\"a\",\"Content\":\"\",\"CreatedAt\":\"\",\"Author\":\"\",\"ViewCount\":8,\"LastViewed\":\"2025-05-01\"}]\<newline>''
   \<and> MarshalIndent (Some [example_post_viewed]) =
       ''[\<newline>  {\<newline>    \"Title\": \"a\",\<newline>    \"Content\": \"\",\<newline>    \"CreatedAt\": \"\",\<newline>    \"Author\": \"\",\<newline>    \"ViewCount\": 8,\<newline>    \"LastViewed\": \"2025-05-01\"\<newline>  }\<newline>]''
   \<and> resp_body (Write (Encode (Some [example_post_viewed]))
            (Header_Set ''Content-Type'' ''application/json'' new_response)) \<noteq>
       MarshalIndent (Some [example_post_viewed])"
proof -
  have "Encode (Some [example_post_viewed]) \<noteq> MarshalIndent (Some [example_post_viewed])"
    unfolding Encode_example MarshalIndent_example by simp
  then show ?thesis
    by (simp add: serve_def cleanPath_index cleanPath_posts_index index_example
          resp_body_first_Write Encode_example MarshalIndent_example)
qed

end
